theory Spec2Isabelle
  imports Main "HOL-Library.Option_ord" "HOL-Library.Multiset"
begin

section \<open>QuickDesk: the data model of app.py\<close>

text \<open>
  The SQLAlchemy models of \<^verbatim>\<open>app.py\<close> become records, one per table row. Columns keep
  their names; \<^verbatim>\<open>id\<close>, \<^verbatim>\<open>user_id\<close>, \<^verbatim>\<open>ticket_id\<close> and \<^verbatim>\<open>created_at\<close> occur in
  several tables and carry the table's initial. Integer columns are \<open>int\<close>, nullable
  foreign keys are \<open>int option\<close>, \<^verbatim>\<open>String\<close>/\<^verbatim>\<open>Text\<close> columns are \<open>string\<close>, and a
  \<^verbatim>\<open>DateTime\<close> is an \<open>int\<close> (a point on the UTC time line). The columns \<^verbatim>\<open>email\<close>,
  \<^verbatim>\<open>password_hash\<close> and \<^verbatim>\<open>created_at\<close> of \<^verbatim>\<open>User\<close> are read by no operation modelled
  here and are left out; so are the tables \<^verbatim>\<open>Category\<close> and \<^verbatim>\<open>Attachment\<close>. The
  vote counters and \<^verbatim>\<open>is_read\<close> are never \<^verbatim>\<open>NULL\<close>: every row is inserted with the
  column defaults \<open>0\<close> and \<^verbatim>\<open>False\<close>.
\<close>

record user =
  u_id :: int
  username :: string
  role :: string

record ticket =
  t_id :: int
  subject :: string
  description :: string
  status :: string
  priority :: string
  t_created_at :: int
  updated_at :: int
  t_user_id :: int
  category_id :: int
  assigned_to :: "int option"
  upvotes :: int
  downvotes :: int

record comment =
  c_id :: int
  content :: string
  c_created_at :: int
  c_user_id :: int
  c_ticket_id :: int

record notification =
  n_id :: int
  n_user_id :: int
  n_ticket_id :: int
  comment_id :: "int option"
  n_type :: string
  message :: string
  is_read :: bool
  n_created_at :: int

text \<open>
  The database is the list of rows of each table, in the order in which a query without
  \<^verbatim>\<open>ORDER BY\<close> returns them (insertion order).
\<close>

record db =
  users :: "user list"
  tickets :: "ticket list"
  comments :: "comment list"
  notifications :: "notification list"

text \<open>
  An exception of the Python code. The notification helpers commit row by row, so an
  exception leaves behind whatever was committed before it: \<open>Raised e s\<close> carries that
  database.
\<close>

datatype exn = AttributeError

datatype outcome = Done db | Raised exn db

fun db_of :: "outcome \<Rightarrow> db" where
  "db_of (Done s) = s"
| "db_of (Raised e s) = s"

definition and_then :: "outcome \<Rightarrow> (db \<Rightarrow> outcome) \<Rightarrow> outcome" where
  "and_then r f = (case r of Done s \<Rightarrow> f s | Raised e s \<Rightarrow> Raised e s)"

text \<open>The next value of an integer primary key: one more than the largest in the table.\<close>

definition next_id :: "int list \<Rightarrow> int" where
  "next_id ids = foldr max ids 0 + 1"

text \<open>
  \<^verbatim>\<open>User.query.filter_by(role=r).all()\<close>. Text columns are compared for exact equality,
  as SQLite, the default database of the application, does.
\<close>

definition users_with_role :: "db \<Rightarrow> string \<Rightarrow> user list" where
  "users_with_role st r = filter (\<lambda>u. role u = r) (users st)"

text \<open>
  The relationships \<^verbatim>\<open>ticket.author\<close>, \<^verbatim>\<open>comment.author\<close> and \<^verbatim>\<open>comment.ticket\<close>: the row
  the foreign key points to, or \<^verbatim>\<open>None\<close>.
\<close>

definition get_user :: "db \<Rightarrow> int \<Rightarrow> user option" where
  "get_user st uid = find (\<lambda>u. u_id u = uid) (users st)"

definition get_ticket :: "db \<Rightarrow> int \<Rightarrow> ticket option" where
  "get_ticket st tid = find (\<lambda>t. t_id t = tid) (tickets st)"

section \<open>Notification helpers\<close>

text \<open>
  \<^verbatim>\<open>create_notification\<close> adds one row and commits. \<^verbatim>\<open>is_read\<close> takes its column
  default \<^verbatim>\<open>False\<close>, \<^verbatim>\<open>created_at\<close> the time \<open>now\<close> of the insert.
\<close>

definition create_notification ::
  "int \<Rightarrow> db \<Rightarrow> int \<Rightarrow> int \<Rightarrow> string \<Rightarrow> string \<Rightarrow> int option \<Rightarrow> db" where
  "create_notification now st user_id ticket_id notification_type msg cid =
     st\<lparr>notifications := notifications st @
        [\<lparr>n_id = next_id (map n_id (notifications st)),
          n_user_id = user_id,
          n_ticket_id = ticket_id,
          comment_id = cid,
          n_type = notification_type,
          message = msg,
          is_read = False,
          n_created_at = now\<rparr>]\<rparr>"

text \<open>
  The message of \<^verbatim>\<open>notify_ticket_created\<close>. Reading \<^verbatim>\<open>ticket.author.username\<close> raises
  \<^verbatim>\<open>AttributeError\<close> when the author row is missing.
\<close>

definition quoted :: "string \<Rightarrow> string" where
  "quoted s = [CHR 0x22] @ s @ [CHR 0x22]"

definition ticket_created_message :: "db \<Rightarrow> ticket \<Rightarrow> string option" where
  "ticket_created_message st t =
     (case get_user st (t_user_id t) of
        None \<Rightarrow> None
      | Some a \<Rightarrow> Some (''New ticket '' @ quoted (subject t) @ '' created by '' @ username a))"

text \<open>One \<^verbatim>\<open>for\<close> loop of \<^verbatim>\<open>notify_ticket_created\<close> over the rows \<open>us\<close>.\<close>

fun notify_created_loop :: "int \<Rightarrow> ticket \<Rightarrow> user list \<Rightarrow> db \<Rightarrow> outcome" where
  "notify_created_loop now t [] st = Done st"
| "notify_created_loop now t (u # us) st =
     (case ticket_created_message st t of
        None \<Rightarrow> Raised AttributeError st
      | Some msg \<Rightarrow>
          notify_created_loop now t us
            (create_notification now st (u_id u) (t_id t) ''ticket_created'' msg None))"

definition notify_ticket_created :: "int \<Rightarrow> db \<Rightarrow> ticket \<Rightarrow> outcome" where
  "notify_ticket_created now st t =
     and_then (notify_created_loop now t (users_with_role st ''admin'') st)
       (\<lambda>st1. notify_created_loop now t (users_with_role st1 ''agent'') st1)"

text \<open>
  \<^verbatim>\<open>notify_status_changed\<close>: \<^verbatim>\<open>s.replace("_", " ").title()\<close> on the ASCII status names.
  \<^verbatim>\<open>title\<close> upper-cases a letter that follows a non-letter and lower-cases one that
  follows a letter.
\<close>

definition is_upper :: "char \<Rightarrow> bool" where
  "is_upper c = (65 \<le> (of_char c :: nat) \<and> (of_char c :: nat) \<le> 90)"

definition is_lower :: "char \<Rightarrow> bool" where
  "is_lower c = (97 \<le> (of_char c :: nat) \<and> (of_char c :: nat) \<le> 122)"

definition to_upper :: "char \<Rightarrow> char" where
  "to_upper c = (if is_lower c then char_of ((of_char c :: nat) - 32) else c)"

definition to_lower :: "char \<Rightarrow> char" where
  "to_lower c = (if is_upper c then char_of ((of_char c :: nat) + 32) else c)"

fun title_from :: "bool \<Rightarrow> string \<Rightarrow> string" where
  "title_from prev_cased [] = []"
| "title_from prev_cased (c # cs) =
     (if is_upper c \<or> is_lower c
      then (if prev_cased then to_lower c else to_upper c) # title_from True cs
      else c # title_from False cs)"

definition title :: "string \<Rightarrow> string" where
  "title s = title_from False s"

definition replace_underscore :: "string \<Rightarrow> string" where
  "replace_underscore s = map (\<lambda>c. if c = CHR ''_'' then CHR '' '' else c) s"

definition notify_status_changed :: "int \<Rightarrow> db \<Rightarrow> ticket \<Rightarrow> string \<Rightarrow> string \<Rightarrow> db" where
  "notify_status_changed now st t old_status new_status =
     create_notification now st (t_user_id t) (t_id t) ''status_changed''
       (''Your ticket '' @ quoted (subject t) @ '' status changed from ''
          @ title (replace_underscore old_status) @ '' to ''
          @ title (replace_underscore new_status))
       None"

text \<open>
  \<^verbatim>\<open>notify_comment_added\<close>. Each of the three rules builds its own message; all of them
  read \<^verbatim>\<open>comment.author.username\<close>. \<^verbatim>\<open>ticket.assigned_to\<close> is tested for truth: it is
  false for \<^verbatim>\<open>None\<close> and for \<open>0\<close>.
\<close>

definition comment_message :: "db \<Rightarrow> comment \<Rightarrow> string \<Rightarrow> string option" where
  "comment_message st c prefix =
     (case get_user st (c_user_id c) of
        None \<Rightarrow> None
      | Some a \<Rightarrow> Some (prefix @ '' by '' @ username a))"

definition notify_comment_step ::
  "int \<Rightarrow> comment \<Rightarrow> ticket \<Rightarrow> int \<Rightarrow> string \<Rightarrow> db \<Rightarrow> outcome" where
  "notify_comment_step now c t recipient prefix st =
     (case comment_message st c prefix of
        None \<Rightarrow> Raised AttributeError st
      | Some msg \<Rightarrow>
          Done (create_notification now st recipient (t_id t) ''comment_added'' msg (Some (c_id c))))"

fun notify_comment_admins :: "int \<Rightarrow> comment \<Rightarrow> ticket \<Rightarrow> user list \<Rightarrow> db \<Rightarrow> outcome" where
  "notify_comment_admins now c t [] st = Done st"
| "notify_comment_admins now c t (admin # admins) st =
     (if u_id admin \<noteq> c_user_id c
      then and_then
             (notify_comment_step now c t (u_id admin)
                (''New comment on '' @ priority t @ '' priority ticket '' @ quoted (subject t)) st)
             (notify_comment_admins now c t admins)
      else notify_comment_admins now c t admins st)"

definition truthy :: "int option \<Rightarrow> bool" where
  "truthy v = (case v of None \<Rightarrow> False | Some n \<Rightarrow> n \<noteq> 0)"

definition notify_comment_added :: "int \<Rightarrow> db \<Rightarrow> comment \<Rightarrow> outcome" where
  "notify_comment_added now st c =
     (case get_ticket st (c_ticket_id c) of
        None \<Rightarrow> Raised AttributeError st
      | Some t \<Rightarrow>
          and_then
            (if c_user_id c \<noteq> t_user_id t
             then notify_comment_step now c t (t_user_id t)
                    (''New comment on your ticket '' @ quoted (subject t)) st
             else Done st)
            (\<lambda>st1. and_then
               (if truthy (assigned_to t) \<and> assigned_to t \<noteq> Some (c_user_id c)
                     \<and> assigned_to t \<noteq> Some (t_user_id t)
                then notify_comment_step now c t (the (assigned_to t))
                       (''New comment on assigned ticket '' @ quoted (subject t)) st1
                else Done st1)
               (\<lambda>st2. if priority t \<in> set [''high'', ''urgent'']
                  then notify_comment_admins now c t (users_with_role st2 ''admin'') st2
                  else Done st2)))"

text \<open>
  The rows a call added to the notification table, and the recipients of those rows in
  the order of their creation.
\<close>

definition new_notifications :: "db \<Rightarrow> db \<Rightarrow> notification list" where
  "new_notifications st st' = drop (length (notifications st)) (notifications st')"

definition recipients :: "db \<Rightarrow> db \<Rightarrow> int list" where
  "recipients st st' = map n_user_id (new_notifications st st')"

section \<open>Route handlers\<close>

text \<open>
  What a handler gives back: the HTTP response, the messages it flashed (text and
  category) and the database after its commits. Every handler modelled here is behind
  \<^verbatim>\<open>@login_required\<close>, so \<^verbatim>\<open>current_user\<close> is a row of the user table. A request
  gets as \<open>now\<close> the time that \<^verbatim>\<open>datetime.utcnow()\<close> returns while it is served.
\<close>

datatype response =
    Redirect string "int option"
  | Json_votes int int
  | Render_dashboard "ticket list"
  | Abort nat
  | Server_error

record reply =
  response :: response
  flashes :: "(string \<times> string) list"
  store :: db

text \<open>
  \<^verbatim>\<open>db.session.commit()\<close> for one loaded ticket row: when no column changed nothing is
  written; otherwise the row with that primary key is rewritten, and \<^verbatim>\<open>updated_at\<close>,
  when the handler did not change it, takes its \<^verbatim>\<open>onupdate\<close> value, the current time.
  A status change writes a text and a time only; the commit of a vote writes a counter
  and can fail, which \<^verbatim>\<open>vote_ticket\<close> below checks first.
\<close>

definition commit_ticket :: "int \<Rightarrow> db \<Rightarrow> ticket \<Rightarrow> ticket \<Rightarrow> db" where
  "commit_ticket now st old new =
     (if new = old then st
      else let row = (if updated_at new = updated_at old then new\<lparr>updated_at := now\<rparr> else new)
           in st\<lparr>tickets := map (\<lambda>x. if t_id x = t_id old then row else x) (tickets st)\<rparr>)"

definition valid_statuses :: "string list" where
  "valid_statuses = [''open'', ''in_progress'', ''resolved'', ''closed'']"

text \<open>
  \<^verbatim>\<open>update_ticket_status\<close>. \<open>form_status\<close> is \<^verbatim>\<open>request.form.get('status')\<close>, which is
  \<^verbatim>\<open>None\<close> when the field is missing.
\<close>

definition update_ticket_status ::
  "int \<Rightarrow> db \<Rightarrow> user \<Rightarrow> int \<Rightarrow> string option \<Rightarrow> reply" where
  "update_ticket_status now st current_user ticket_id form_status =
     (case get_ticket st ticket_id of
        None \<Rightarrow> \<lparr>response = Abort 404, flashes = [], store = st\<rparr>
      | Some t \<Rightarrow>
          if role current_user \<notin> set [''agent'', ''admin'']
          then \<lparr>response = Redirect ''ticket_detail'' (Some ticket_id),
                flashes = [(''You do not have permission to update ticket status'', ''error'')],
                store = st\<rparr>
          else
            (case form_status of
               None \<Rightarrow> \<lparr>response = Redirect ''ticket_detail'' (Some ticket_id),
                         flashes = [], store = st\<rparr>
             | Some s \<Rightarrow>
                 if s \<in> set valid_statuses
                 then
                   (let old_status = status t;
                        t' = t\<lparr>status := s, updated_at := now\<rparr>;
                        st1 = commit_ticket now st t t';
                        st2 = (if old_status \<noteq> s
                               then notify_status_changed now st1 t' old_status s
                               else st1)
                    in \<lparr>response = Redirect ''ticket_detail'' (Some ticket_id),
                        flashes = [(''Ticket status updated successfully!'', ''success'')],
                        store = st2\<rparr>)
                 else \<lparr>response = Redirect ''ticket_detail'' (Some ticket_id),
                       flashes = [], store = st\<rparr>))"

text \<open>
  SQLite keeps an \<^verbatim>\<open>Integer\<close> column in 64 bits, while \<^verbatim>\<open>ticket.upvotes += 1\<close> is
  computed on Python's unbounded integers. When the commit has to write a counter that no
  longer fits, binding the value raises \<^verbatim>\<open>OverflowError\<close>: the request ends with the
  500 response and nothing of it is written. Only the columns the handler changed are
  part of the \<^verbatim>\<open>UPDATE\<close>.
\<close>

definition sqlite_integer :: "int \<Rightarrow> bool" where
  "sqlite_integer v = (- (2 ^ 63) \<le> v \<and> v \<le> 2 ^ 63 - 1)"

definition commit_overflows :: "ticket \<Rightarrow> ticket \<Rightarrow> bool" where
  "commit_overflows old new =
     ((upvotes new \<noteq> upvotes old \<and> \<not> sqlite_integer (upvotes new))
      \<or> (downvotes new \<noteq> downvotes old \<and> \<not> sqlite_integer (downvotes new)))"

text \<open>
  \<^verbatim>\<open>vote_ticket\<close>. \<open>vote_type\<close> is \<^verbatim>\<open>request.form.get('vote_type')\<close>. The handler does
  not look at \<^verbatim>\<open>current_user\<close>.
\<close>

definition vote_ticket :: "int \<Rightarrow> db \<Rightarrow> int \<Rightarrow> string option \<Rightarrow> reply" where
  "vote_ticket now st ticket_id vote_type =
     (case get_ticket st ticket_id of
        None \<Rightarrow> \<lparr>response = Abort 404, flashes = [], store = st\<rparr>
      | Some t \<Rightarrow>
          (let t' = (if vote_type = Some ''upvote'' then t\<lparr>upvotes := upvotes t + 1\<rparr>
                     else if vote_type = Some ''downvote'' then t\<lparr>downvotes := downvotes t + 1\<rparr>
                     else t)
           in if commit_overflows t t'
              then \<lparr>response = Server_error, flashes = [], store = st\<rparr>
              else \<lparr>response = Json_votes (upvotes t') (downvotes t'),
                    flashes = [], store = commit_ticket now st t t'\<rparr>))"


text \<open>
  \<^verbatim>\<open>Notification.query.filter_by(user_id=uid, is_read=False).update({'is_read': True})\<close>:
  the number of rows matched and the table after the update.
\<close>

definition update_unread :: "int \<Rightarrow> notification list \<Rightarrow> nat \<times> notification list" where
  "update_unread uid ns =
     (length (filter (\<lambda>n. n_user_id n = uid \<and> is_read n = False) ns),
      map (\<lambda>n. if n_user_id n = uid \<and> is_read n = False then n\<lparr>is_read := True\<rparr> else n) ns)"

definition mark_all_notifications_read :: "db \<Rightarrow> user \<Rightarrow> reply" where
  "mark_all_notifications_read st current_user =
     (let (matched, ns) = update_unread (u_id current_user) (notifications st)
      in \<lparr>response = Redirect ''notifications'' None,
          flashes = [(''All notifications marked as read!'', ''success'')],
          store = st\<lparr>notifications := ns\<rparr>\<rparr>)"


definition order_by_desc :: "('a \<Rightarrow> 'k::linorder) \<Rightarrow> 'a list \<Rightarrow> 'a list" where
  "order_by_desc k rows = rev (sort_key k (rev rows))"






section \<open>Sample data\<close>

text \<open>
  A small help desk used for the concrete runs below: two admins, an agent and a plain
  user; three open tickets, the second filed by an admin with priority high; and a
  comment of the agent on that second ticket.
\<close>

definition admin1 :: user where "admin1 = \<lparr>u_id = 1, username = ''root'', role = ''admin''\<rparr>"
definition agent2 :: user where "agent2 = \<lparr>u_id = 2, username = ''bea'', role = ''agent''\<rparr>"
definition user3 :: user where "user3 = \<lparr>u_id = 3, username = ''cy'', role = ''user''\<rparr>"
definition admin4 :: user where "admin4 = \<lparr>u_id = 4, username = ''dee'', role = ''admin''\<rparr>"

definition ticket1 :: ticket where
  "ticket1 = \<lparr>t_id = 1, subject = ''Printer'', description = ''Jammed'', status = ''open'',
     priority = ''medium'', t_created_at = 10, updated_at = 10, t_user_id = 3, category_id = 1,
     assigned_to = None, upvotes = 0, downvotes = 0\<rparr>"

definition ticket2 :: ticket where
  "ticket2 = \<lparr>t_id = 2, subject = ''Outage'', description = ''Down'', status = ''open'',
     priority = ''high'', t_created_at = 20, updated_at = 20, t_user_id = 1, category_id = 1,
     assigned_to = None, upvotes = 0, downvotes = 0\<rparr>"

definition ticket3 :: ticket where
  "ticket3 = \<lparr>t_id = 3, subject = ''Login'', description = ''Locked'', status = ''open'',
     priority = ''medium'', t_created_at = 30, updated_at = 30, t_user_id = 3, category_id = 2,
     assigned_to = None, upvotes = 0, downvotes = 0\<rparr>"

definition desk :: db where
  "desk = \<lparr>users = [admin1, agent2, user3, admin4], tickets = [ticket1, ticket2, ticket3],
     comments = [], notifications = []\<rparr>"

definition comment1 :: comment where
  "comment1 = \<lparr>c_id = 1, content = ''Looking'', c_created_at = 40, c_user_id = 2, c_ticket_id = 2\<rparr>"






text \<open>The sample desk after the second ticket's creation has been announced.\<close>

definition desk_notified :: db where
  "desk_notified = db_of (notify_ticket_created 100 desk ticket2)"

section \<open>Notification fan-out\<close>

subsection \<open>Rows written by the helpers\<close>

lemma get_user_append_notifications:
  "get_user (st\<lparr>notifications := ns\<rparr>) uid = get_user st uid"
  by (simp add: get_user_def)

lemma created_loop_rows:
  assumes "ticket_created_message st t = Some msg"
  shows "\<exists>news. notify_created_loop now t us st = Done (st\<lparr>notifications := notifications st @ news\<rparr>)
           \<and> map n_user_id news = map u_id us
           \<and> (\<forall>n \<in> set news. n_type n = ''ticket_created'' \<and> n_ticket_id n = t_id t)"
  using assms
proof (induction us arbitrary: st)
  case Nil
  show ?case by simp
next
  case (Cons u us)
  let ?st1 = "create_notification now st (u_id u) (t_id t) ''ticket_created'' msg None"
  have m: "ticket_created_message ?st1 t = Some msg"
    using Cons.prems by (simp add: ticket_created_message_def create_notification_def get_user_def)
  from Cons.IH [OF m] obtain news where
    r: "notify_created_loop now t us ?st1 = Done (?st1\<lparr>notifications := notifications ?st1 @ news\<rparr>)"
    and ids: "map n_user_id news = map u_id us"
    and ty: "\<forall>n \<in> set news. n_type n = ''ticket_created'' \<and> n_ticket_id n = t_id t"
    by blast
  obtain row where row: "?st1 = st\<lparr>notifications := notifications st @ [row]\<rparr>"
    and rid: "n_user_id row = u_id u" and rty: "n_type row = ''ticket_created''" and rt: "n_ticket_id row = t_id t"
    by (simp add: create_notification_def)
  have "notify_created_loop now t (u # us) st = Done (st\<lparr>notifications := notifications st @ (row # news)\<rparr>)"
    using Cons.prems r row by simp
  moreover have "map n_user_id (row # news) = map u_id (u # us)" using ids rid by simp
  moreover have "\<forall>n \<in> set (row # news). n_type n = ''ticket_created'' \<and> n_ticket_id n = t_id t"
    using ty rty rt by simp
  ultimately show ?case by blast
qed

lemma comment_step_row:
  assumes "get_user st (c_user_id c) = Some a"
  shows "\<exists>row. notify_comment_step now c t r prefix st = Done (st\<lparr>notifications := notifications st @ [row]\<rparr>)
           \<and> n_user_id row = r"
proof -
  let ?row = "\<lparr>n_id = next_id (map n_id (notifications st)), n_user_id = r, n_ticket_id = t_id t,
      comment_id = Some (c_id c), n_type = ''comment_added'', message = prefix @ '' by '' @ username a,
      is_read = False, n_created_at = now\<rparr>"
  have "notify_comment_step now c t r prefix st = Done (st\<lparr>notifications := notifications st @ [?row]\<rparr>)"
    using assms by (simp add: notify_comment_step_def comment_message_def create_notification_def)
  moreover have "n_user_id ?row = r" by simp
  ultimately show ?thesis by blast
qed

lemma comment_admins_rows:
  assumes "get_user st (c_user_id c) = Some a"
  shows "\<exists>news. notify_comment_admins now c t admins st = Done (st\<lparr>notifications := notifications st @ news\<rparr>)
           \<and> map n_user_id news = filter (\<lambda>i. i \<noteq> c_user_id c) (map u_id admins)"
  using assms
proof (induction admins arbitrary: st)
  case Nil
  show ?case by simp
next
  case (Cons admin admins)
  show ?case
  proof (cases "u_id admin \<noteq> c_user_id c")
    case False
    then show ?thesis using Cons.IH [OF Cons.prems] by simp
  next
    case True
    let ?p = "''New comment on '' @ priority t @ '' priority ticket '' @ quoted (subject t)"
    from comment_step_row [OF Cons.prems, of now t "u_id admin" ?p] obtain row where
      s: "notify_comment_step now c t (u_id admin) ?p st = Done (st\<lparr>notifications := notifications st @ [row]\<rparr>)"
      and rid: "n_user_id row = u_id admin" by blast
    let ?st1 = "st\<lparr>notifications := notifications st @ [row]\<rparr>"
    have g: "get_user ?st1 (c_user_id c) = Some a"
      using Cons.prems by (simp add: get_user_def)
    from Cons.IH [OF g] obtain news where
      r: "notify_comment_admins now c t admins ?st1 = Done (?st1\<lparr>notifications := notifications ?st1 @ news\<rparr>)"
      and ids: "map n_user_id news = filter (\<lambda>i. i \<noteq> c_user_id c) (map u_id admins)" by blast
    have "notify_comment_admins now c t (admin # admins) st
            = Done (st\<lparr>notifications := notifications st @ (row # news)\<rparr>)"
      using True s r by (simp add: and_then_def)
    moreover have "map n_user_id (row # news) = filter (\<lambda>i. i \<noteq> c_user_id c) (map u_id (admin # admins))"
      using True rid ids by simp
    ultimately show ?thesis by blast
  qed
qed

lemma comment_added_rows:
  assumes t: "get_ticket st (c_ticket_id c) = Some t" and a: "get_user st (c_user_id c) = Some a"
  shows "\<exists>news. notify_comment_added now st c = Done (st\<lparr>notifications := notifications st @ news\<rparr>)
           \<and> map n_user_id news =
               (if c_user_id c \<noteq> t_user_id t then [t_user_id t] else [])
               @ (if truthy (assigned_to t) \<and> assigned_to t \<noteq> Some (c_user_id c)
                     \<and> assigned_to t \<noteq> Some (t_user_id t) then [the (assigned_to t)] else [])
               @ (if priority t \<in> set [''high'', ''urgent'']
                  then filter (\<lambda>i. i \<noteq> c_user_id c) (map u_id (users_with_role st ''admin'')) else [])"
proof -
  let ?p1 = "''New comment on your ticket '' @ quoted (subject t)"
  let ?p2 = "''New comment on assigned ticket '' @ quoted (subject t)"
  let ?r1 = "if c_user_id c \<noteq> t_user_id t then [t_user_id t] else []"
  let ?r2 = "if truthy (assigned_to t) \<and> assigned_to t \<noteq> Some (c_user_id c)
                     \<and> assigned_to t \<noteq> Some (t_user_id t) then [the (assigned_to t)] else []"
  let ?r3 = "if priority t \<in> set [''high'', ''urgent'']
                  then filter (\<lambda>i. i \<noteq> c_user_id c) (map u_id (users_with_role st ''admin'')) else []"
  obtain n1 where
    s1: "(if c_user_id c \<noteq> t_user_id t then notify_comment_step now c t (t_user_id t) ?p1 st else Done st)
           = Done (st\<lparr>notifications := notifications st @ n1\<rparr>)"
    and i1: "map n_user_id n1 = ?r1"
  proof (cases "c_user_id c \<noteq> t_user_id t")
    case True
    from comment_step_row [OF a, of now t "t_user_id t" ?p1] obtain row where
      "notify_comment_step now c t (t_user_id t) ?p1 st = Done (st\<lparr>notifications := notifications st @ [row]\<rparr>)"
      "n_user_id row = t_user_id t" by blast
    then show ?thesis using True that [of "[row]"] by simp
  next
    case False
    then show ?thesis using that [of "[]"] by simp
  qed
  let ?st1 = "st\<lparr>notifications := notifications st @ n1\<rparr>"
  have a1: "get_user ?st1 (c_user_id c) = Some a" using a by (simp add: get_user_def)
  obtain n2 where
    s2: "(if truthy (assigned_to t) \<and> assigned_to t \<noteq> Some (c_user_id c)
                     \<and> assigned_to t \<noteq> Some (t_user_id t)
          then notify_comment_step now c t (the (assigned_to t)) ?p2 ?st1 else Done ?st1)
           = Done (st\<lparr>notifications := notifications st @ n1 @ n2\<rparr>)"
    and i2: "map n_user_id n2 = ?r2"
  proof (cases "truthy (assigned_to t) \<and> assigned_to t \<noteq> Some (c_user_id c)
                     \<and> assigned_to t \<noteq> Some (t_user_id t)")
    case True
    from comment_step_row [OF a1, of now t "the (assigned_to t)" ?p2] obtain row where
      "notify_comment_step now c t (the (assigned_to t)) ?p2 ?st1 = Done (?st1\<lparr>notifications := notifications ?st1 @ [row]\<rparr>)"
      "n_user_id row = the (assigned_to t)" by blast
    then show ?thesis using True that [of "[row]"] by simp
  next
    case False
    then show ?thesis using that [of "[]"] by auto
  qed
  let ?st2 = "st\<lparr>notifications := notifications st @ n1 @ n2\<rparr>"
  have a2: "get_user ?st2 (c_user_id c) = Some a" using a by (simp add: get_user_def)
  have u2: "users_with_role ?st2 ''admin'' = users_with_role st ''admin''"
    by (simp add: users_with_role_def)
  obtain n3 where
    s3: "(if priority t \<in> set [''high'', ''urgent'']
          then notify_comment_admins now c t (users_with_role ?st2 ''admin'') ?st2 else Done ?st2)
           = Done (st\<lparr>notifications := notifications st @ n1 @ n2 @ n3\<rparr>)"
    and i3: "map n_user_id n3 = ?r3"
  proof (cases "priority t \<in> set [''high'', ''urgent'']")
    case True
    from comment_admins_rows [OF a2, of now t "users_with_role ?st2 ''admin''"] obtain news where
      "notify_comment_admins now c t (users_with_role ?st2 ''admin'') ?st2
         = Done (?st2\<lparr>notifications := notifications ?st2 @ news\<rparr>)"
      "map n_user_id news = filter (\<lambda>i. i \<noteq> c_user_id c) (map u_id (users_with_role ?st2 ''admin''))"
      by blast
    then show ?thesis using True u2 that [of news] by simp
  next
    case False
    then show ?thesis using that [of "[]"] by simp
  qed
  have "notify_comment_added now st c = Done (st\<lparr>notifications := notifications st @ (n1 @ n2 @ n3)\<rparr>)"
    unfolding notify_comment_added_def using t s1 s2 s3 by (simp add: and_then_def)
  moreover have "map n_user_id (n1 @ n2 @ n3) = ?r1 @ ?r2 @ ?r3"
    using i1 i2 i3 by simp
  ultimately show ?thesis by blast
qed

subsection \<open>Ticket creation\<close>

text \<open>
  C1 (as the code has it): \<^verbatim>\<open>notify_ticket_created\<close> notifies exactly the admins and the
  agents, whatever the role of the ticket's creator, so the creator is among the
  recipients exactly when the creator is an admin or an agent. With the primary key of the
  user table unique and the ticket's author present, the call completes, leaves the older
  notification rows alone, and writes for each recipient exactly one row, of type
  \<^verbatim>\<open>ticket_created\<close> and for this ticket.
\<close>

theorem C1_ticket_created_recipients:
  assumes ids: "distinct (map u_id (users st))"
    and author: "get_user st (t_user_id t) \<noteq> None"
  shows "\<exists>st'. notify_ticket_created now st t = Done st'
           \<and> take (length (notifications st)) (notifications st') = notifications st
           \<and> set (recipients st st')
               = u_id ` {u \<in> set (users st). role u = ''admin'' \<or> role u = ''agent''}
           \<and> distinct (recipients st st')
           \<and> (\<forall>n \<in> set (new_notifications st st').
                 n_type n = ''ticket_created'' \<and> n_ticket_id n = t_id t)
           \<and> (t_user_id t \<in> set (recipients st st') \<longleftrightarrow>
                 (\<exists>u \<in> set (users st). u_id u = t_user_id t
                     \<and> (role u = ''admin'' \<or> role u = ''agent'')))"
proof -
  from author obtain msg where m: "ticket_created_message st t = Some msg"
    by (auto simp: ticket_created_message_def)
  let ?admins = "users_with_role st ''admin''"
  let ?agents = "users_with_role st ''agent''"
  from created_loop_rows [OF m, of now ?admins] obtain n1 where
    r1: "notify_created_loop now t ?admins st = Done (st\<lparr>notifications := notifications st @ n1\<rparr>)"
    and i1: "map n_user_id n1 = map u_id ?admins"
    and t1: "\<forall>n \<in> set n1. n_type n = ''ticket_created'' \<and> n_ticket_id n = t_id t"
    by blast
  let ?st1 = "st\<lparr>notifications := notifications st @ n1\<rparr>"
  have m1: "ticket_created_message ?st1 t = Some msg"
    using m by (simp add: ticket_created_message_def get_user_def)
  have u1: "users_with_role ?st1 ''agent'' = ?agents"
    by (simp add: users_with_role_def)
  from created_loop_rows [OF m1, of now ?agents] obtain n2 where
    r2: "notify_created_loop now t ?agents ?st1 = Done (st\<lparr>notifications := notifications st @ n1 @ n2\<rparr>)"
    and i2: "map n_user_id n2 = map u_id ?agents"
    and t2: "\<forall>n \<in> set n2. n_type n = ''ticket_created'' \<and> n_ticket_id n = t_id t"
    by auto
  let ?st' = "st\<lparr>notifications := notifications st @ n1 @ n2\<rparr>"
  have run: "notify_ticket_created now st t = Done ?st'"
    using r1 r2 u1 by (simp add: notify_ticket_created_def and_then_def)
  have new: "new_notifications st ?st' = n1 @ n2"
    by (simp add: new_notifications_def)
  have rec: "recipients st ?st' = map u_id ?admins @ map u_id ?agents"
    using new i1 i2 by (simp add: recipients_def)
  have old: "take (length (notifications st)) (notifications ?st') = notifications st"
    by simp
  have rset: "set (recipients st ?st')
      = u_id ` {u \<in> set (users st). role u = ''admin'' \<or> role u = ''agent''}"
    unfolding rec by (auto simp: users_with_role_def)
  have inj: "inj_on u_id (set (users st))"
    using ids by (simp add: distinct_map)
  have d1: "distinct (map u_id ?admins)" and d2: "distinct (map u_id ?agents)"
    using ids by (simp_all add: users_with_role_def distinct_map_filter)
  have disj: "set (map u_id ?admins) \<inter> set (map u_id ?agents) = {}"
  proof (rule ccontr)
    assume "set (map u_id ?admins) \<inter> set (map u_id ?agents) \<noteq> {}"
    then obtain a b where "a \<in> set (users st)" "b \<in> set (users st)" "role a = ''admin''"
      "role b = ''agent''" "u_id a = u_id b"
      by (auto simp: users_with_role_def)
    with inj have "a = b" by (auto dest: inj_onD)
    with \<open>role a = ''admin''\<close> \<open>role b = ''agent''\<close> show False by simp
  qed
  have dist: "distinct (recipients st ?st')"
    unfolding rec using d1 d2 disj by simp
  have types: "\<forall>n \<in> set (new_notifications st ?st').
                 n_type n = ''ticket_created'' \<and> n_ticket_id n = t_id t"
    unfolding new using t1 t2 by auto
  have creator: "t_user_id t \<in> set (recipients st ?st') \<longleftrightarrow>
                 (\<exists>u \<in> set (users st). u_id u = t_user_id t
                     \<and> (role u = ''admin'' \<or> role u = ''agent''))"
    unfolding rset by (auto simp: image_iff)
  from run old rset dist types creator show ?thesis by blast
qed

text \<open>The theorem at the sample desk, for the first ticket, filed by the plain user.\<close>

theorem C1_ticket_created_recipients_witness:
  "distinct (map u_id (users desk)) \<and> get_user desk (t_user_id ticket1) \<noteq> None
   \<and> (\<exists>st'. notify_ticket_created 100 desk ticket1 = Done st'
           \<and> take (length (notifications desk)) (notifications st') = notifications desk
           \<and> set (recipients desk st')
               = u_id ` {u \<in> set (users desk). role u = ''admin'' \<or> role u = ''agent''}
           \<and> distinct (recipients desk st')
           \<and> (\<forall>n \<in> set (new_notifications desk st').
                 n_type n = ''ticket_created'' \<and> n_ticket_id n = t_id ticket1)
           \<and> (t_user_id ticket1 \<in> set (recipients desk st') \<longleftrightarrow>
                 (\<exists>u \<in> set (users desk). u_id u = t_user_id ticket1
                     \<and> (role u = ''admin'' \<or> role u = ''agent''))))"
proof -
  have h1: "distinct (map u_id (users desk))" by code_simp
  have h2: "get_user desk (t_user_id ticket1) \<noteq> None" by code_simp
  from C1_ticket_created_recipients [OF h1 h2, of 100] h1 h2 show ?thesis by blast
qed

text \<open>
  The second ticket of the sample desk was filed by the admin with id 1: that admin is
  notified of the ticket they created themselves.
\<close>

theorem C1_creator_notified_counterexample:
  "t_user_id ticket2 = 1
   \<and> notify_ticket_created 100 desk ticket2
       = Done (db_of (notify_ticket_created 100 desk ticket2))
   \<and> recipients desk (db_of (notify_ticket_created 100 desk ticket2)) = [1, 4, 2]"
  by code_simp

subsection \<open>Comments\<close>

text \<open>
  C2 (the code at a failing input): on the sample desk the agent comments on the
  high-priority ticket filed by the admin with id 1. The creator rule and the admin rule
  both notify that admin, so the one event gives them two notification rows.
\<close>

theorem C2_admin_creator_notified_twice:
  "notify_comment_added 100 desk comment1
       = Done (db_of (notify_comment_added 100 desk comment1))
   \<and> recipients desk (db_of (notify_comment_added 100 desk comment1)) = [1, 1, 4]"
  by code_simp

text \<open>
  C5: \<^verbatim>\<open>notify_comment_added\<close> never notifies the comment's author. When the comment's
  ticket and author exist, the call completes, keeps the older rows, and the recipients are
  the creator (unless the author), the assigned agent (unless the author or the creator) and,
  on a high or urgent ticket, the admins other than the author: the author is in none of
  the three.
\<close>

theorem C5_comment_author_not_notified:
  assumes t: "get_ticket st (c_ticket_id c) = Some t"
    and a: "get_user st (c_user_id c) \<noteq> None"
  shows "\<exists>st'. notify_comment_added now st c = Done st'
           \<and> take (length (notifications st)) (notifications st') = notifications st
           \<and> recipients st st' =
               (if c_user_id c \<noteq> t_user_id t then [t_user_id t] else [])
               @ (if truthy (assigned_to t) \<and> assigned_to t \<noteq> Some (c_user_id c)
                     \<and> assigned_to t \<noteq> Some (t_user_id t) then [the (assigned_to t)] else [])
               @ (if priority t \<in> set [''high'', ''urgent'']
                  then filter (\<lambda>i. i \<noteq> c_user_id c) (map u_id (users_with_role st ''admin''))
                  else [])
           \<and> c_user_id c \<notin> set (recipients st st')"
proof -
  from a obtain au where au: "get_user st (c_user_id c) = Some au" by auto
  from comment_added_rows [OF t au, of now] obtain news where
    run: "notify_comment_added now st c = Done (st\<lparr>notifications := notifications st @ news\<rparr>)"
    and ids: "map n_user_id news =
               (if c_user_id c \<noteq> t_user_id t then [t_user_id t] else [])
               @ (if truthy (assigned_to t) \<and> assigned_to t \<noteq> Some (c_user_id c)
                     \<and> assigned_to t \<noteq> Some (t_user_id t) then [the (assigned_to t)] else [])
               @ (if priority t \<in> set [''high'', ''urgent'']
                  then filter (\<lambda>i. i \<noteq> c_user_id c) (map u_id (users_with_role st ''admin''))
                  else [])"
    by blast
  let ?st' = "st\<lparr>notifications := notifications st @ news\<rparr>"
  have rec: "recipients st ?st' = map n_user_id news"
    by (simp add: recipients_def new_notifications_def)
  have old: "take (length (notifications st)) (notifications ?st') = notifications st"
    by simp
  have "c_user_id c \<notin> set (map n_user_id news)"
    unfolding ids by (auto simp: truthy_def split: option.splits)
  with run rec old ids show ?thesis by (metis (no_types, lifting))
qed

text \<open>The theorem at the sample desk, for the agent's comment on the second ticket.\<close>

theorem C5_comment_author_not_notified_witness:
  "get_ticket desk (c_ticket_id comment1) = Some ticket2
   \<and> get_user desk (c_user_id comment1) \<noteq> None
   \<and> (\<exists>st'. notify_comment_added 100 desk comment1 = Done st'
           \<and> c_user_id comment1 \<notin> set (recipients desk st'))"
proof -
  have h1: "get_ticket desk (c_ticket_id comment1) = Some ticket2" by code_simp
  have h2: "get_user desk (c_user_id comment1) \<noteq> None" by code_simp
  from C5_comment_author_not_notified [OF h1 h2, of 100] h1 h2 show ?thesis by blast
qed

section \<open>Changing a ticket's status\<close>

subsection \<open>Rows written by a commit\<close>

lemma get_ticket_id: "get_ticket st tid = Some t \<Longrightarrow> t_id t = tid"
  by (auto simp: get_ticket_def find_Some_iff)

lemma find_rewritten_row:
  assumes "find (\<lambda>x. t_id x = tid) ts = Some t" and "t_id row = tid"
  shows "find (\<lambda>x. t_id x = tid) (map (\<lambda>x. if t_id x = tid then row else x) ts) = Some row"
  using assms by (induction ts) (auto split: if_splits)

lemma filter_rewritten_rows:
  assumes "t_id row = tid"
  shows "filter (\<lambda>x. t_id x \<noteq> tid) (map (\<lambda>x. if t_id x = tid then row else x) ts)
           = filter (\<lambda>x. t_id x \<noteq> tid) ts"
  using assms by (induction ts) auto

lemma commit_ticket_row:
  assumes g: "get_ticket st tid = Some t" and i: "t_id t' = tid"
  shows "get_ticket (commit_ticket now st t t') tid
           = Some (if t' = t then t
                   else if updated_at t' = updated_at t then t'\<lparr>updated_at := now\<rparr> else t')"
proof (cases "t' = t")
  case True
  then show ?thesis using g by (simp add: commit_ticket_def)
next
  case False
  have tid: "t_id t = tid" using g by (rule get_ticket_id)
  let ?row = "if updated_at t' = updated_at t then t'\<lparr>updated_at := now\<rparr> else t'"
  have "t_id ?row = tid" using i by simp
  with g have "find (\<lambda>x. t_id x = tid) (map (\<lambda>x. if t_id x = tid then ?row else x) (tickets st)) = Some ?row"
    unfolding get_ticket_def by (rule find_rewritten_row)
  then show ?thesis using False tid by (simp add: commit_ticket_def get_ticket_def Let_def)
qed

lemma commit_ticket_others:
  assumes g: "get_ticket st tid = Some t" and i: "t_id t' = tid"
  shows "filter (\<lambda>x. t_id x \<noteq> tid) (tickets (commit_ticket now st t t'))
           = filter (\<lambda>x. t_id x \<noteq> tid) (tickets st)"
proof -
  have tid: "t_id t = tid" using g by (rule get_ticket_id)
  show ?thesis using i tid
    by (simp add: commit_ticket_def Let_def filter_rewritten_rows)
qed

lemma commit_ticket_frame:
  "users (commit_ticket now st t t') = users st"
  "comments (commit_ticket now st t t') = comments st"
  "notifications (commit_ticket now st t t') = notifications st"
  by (simp_all add: commit_ticket_def Let_def)

subsection \<open>The handler\<close>

text \<open>
  C6: when \<^verbatim>\<open>current_user.role\<close> is neither \<^verbatim>\<open>agent\<close> nor \<^verbatim>\<open>admin\<close> (the ticket's own
  creator with role \<^verbatim>\<open>user\<close> included), \<^verbatim>\<open>update_ticket_status\<close> on an existing ticket
  refuses: it flashes the permission error, redirects to the ticket, and leaves the whole
  database as it was, so the status is unchanged and no notification is written.
\<close>

theorem C6_status_change_forbidden:
  assumes r: "role cu \<noteq> ''agent''" "role cu \<noteq> ''admin''"
    and g: "get_ticket st tid = Some t"
  shows "update_ticket_status now st cu tid form_status
           = \<lparr>response = Redirect ''ticket_detail'' (Some tid),
              flashes = [(''You do not have permission to update ticket status'', ''error'')],
              store = st\<rparr>"
  using r g by (simp add: update_ticket_status_def)

text \<open>The theorem at the sample desk: the plain user tries to close their own ticket.\<close>

theorem C6_status_change_forbidden_witness:
  "role user3 \<noteq> ''agent'' \<and> role user3 \<noteq> ''admin'' \<and> get_ticket desk 1 = Some ticket1
   \<and> t_user_id ticket1 = u_id user3
   \<and> update_ticket_status 100 desk user3 1 (Some ''closed'')
       = \<lparr>response = Redirect ''ticket_detail'' (Some 1),
          flashes = [(''You do not have permission to update ticket status'', ''error'')],
          store = desk\<rparr>"
proof -
  have h1: "role user3 \<noteq> ''agent''" and h2: "role user3 \<noteq> ''admin''"
    by (simp_all add: user3_def)
  have h3: "get_ticket desk 1 = Some ticket1" by code_simp
  have h4: "t_user_id ticket1 = u_id user3" by (simp add: ticket1_def user3_def)
  from C6_status_change_forbidden [OF h1 h2 h3, of 100 "Some ''closed''"] h1 h2 h3 h4
  show ?thesis by simp
qed

text \<open>
  C4 (as the code has it): for an agent or admin and an existing ticket, a status outside
  the four valid values (or a missing one) is ignored without a word: the handler
  redirects to the ticket, flashes no message, neither an error nor the success message,
  and leaves the whole database as it was.
\<close>

theorem C4_invalid_status_ignored:
  assumes r: "role cu = ''agent'' \<or> role cu = ''admin''"
    and g: "get_ticket st tid = Some t"
    and s: "form_status \<notin> Some ` set valid_statuses"
  shows "update_ticket_status now st cu tid form_status
           = \<lparr>response = Redirect ''ticket_detail'' (Some tid), flashes = [], store = st\<rparr>"
  using r g s by (auto simp: update_ticket_status_def split: option.splits)

text \<open>The theorem at the sample desk: the agent sends the status \<^verbatim>\<open>reopened\<close>.\<close>

theorem C4_invalid_status_ignored_witness:
  "(role agent2 = ''agent'' \<or> role agent2 = ''admin'') \<and> get_ticket desk 1 = Some ticket1
   \<and> Some ''reopened'' \<notin> Some ` set valid_statuses
   \<and> update_ticket_status 100 desk agent2 1 (Some ''reopened'')
       = \<lparr>response = Redirect ''ticket_detail'' (Some 1), flashes = [], store = desk\<rparr>"
proof -
  have h1: "role agent2 = ''agent'' \<or> role agent2 = ''admin''" by (simp add: agent2_def)
  have h2: "get_ticket desk 1 = Some ticket1" by code_simp
  have h3: "Some ''reopened'' \<notin> Some ` set valid_statuses" by (simp add: valid_statuses_def)
  from C4_invalid_status_ignored [OF h1 h2 h3, of 100] h1 h2 h3 show ?thesis by simp
qed

text \<open>
  The agent's request with the status \<^verbatim>\<open>reopened\<close> surfaces nothing to the caller: no
  message is flashed and the response is the plain redirect to the ticket.
\<close>

theorem C4_no_error_surfaced_counterexample:
  "flashes (update_ticket_status 100 desk agent2 1 (Some ''reopened'')) = []
   \<and> response (update_ticket_status 100 desk agent2 1 (Some ''reopened''))
       = Redirect ''ticket_detail'' (Some 1)"
  by code_simp

text \<open>
  C3 (as the code has it): when an agent or admin sets the status a ticket already has,
  no notification is written, the user and comment tables and every other ticket stay as
  they were, and the ticket keeps its status and all its other columns; but for a valid
  status the handler still stamps \<^verbatim>\<open>updated_at\<close> with the current time and flashes the
  success message.
\<close>

theorem C3_same_status:
  assumes r: "role cu = ''agent'' \<or> role cu = ''admin''"
    and g: "get_ticket st tid = Some t"
  shows "notifications (store (update_ticket_status now st cu tid (Some (status t)))) = notifications st
    \<and> users (store (update_ticket_status now st cu tid (Some (status t)))) = users st
    \<and> comments (store (update_ticket_status now st cu tid (Some (status t)))) = comments st
    \<and> get_ticket (store (update_ticket_status now st cu tid (Some (status t)))) tid
         = Some (if status t \<in> set valid_statuses then t\<lparr>updated_at := now\<rparr> else t)
    \<and> filter (\<lambda>x. t_id x \<noteq> tid) (tickets (store (update_ticket_status now st cu tid (Some (status t)))))
         = filter (\<lambda>x. t_id x \<noteq> tid) (tickets st)
    \<and> flashes (update_ticket_status now st cu tid (Some (status t)))
         = (if status t \<in> set valid_statuses
            then [(''Ticket status updated successfully!'', ''success'')] else [])"
proof (cases "status t \<in> set valid_statuses")
  case False
  then have "update_ticket_status now st cu tid (Some (status t))
           = \<lparr>response = Redirect ''ticket_detail'' (Some tid), flashes = [], store = st\<rparr>"
    using r g by (auto simp: update_ticket_status_def)
  then show ?thesis using False g by simp
next
  case True
  let ?t' = "t\<lparr>status := status t, updated_at := now\<rparr>"
  have eq: "update_ticket_status now st cu tid (Some (status t))
           = \<lparr>response = Redirect ''ticket_detail'' (Some tid),
              flashes = [(''Ticket status updated successfully!'', ''success'')],
              store = commit_ticket now st t ?t'\<rparr>"
    using r g True by (auto simp: update_ticket_status_def Let_def)
  have i: "t_id ?t' = tid" using g by (simp add: get_ticket_id)
  have same: "?t' = t\<lparr>updated_at := now\<rparr>" by simp
  have row: "get_ticket (commit_ticket now st t ?t') tid = Some (t\<lparr>updated_at := now\<rparr>)"
    using commit_ticket_row [OF g i, of now] by (auto simp: same)
  show ?thesis
    using True row commit_ticket_others [OF g i, of now]
    by (simp add: eq commit_ticket_frame)
qed

text \<open>The theorem at the sample desk: the agent sets the open first ticket to \<^verbatim>\<open>open\<close>.\<close>

theorem C3_same_status_witness:
  "(role agent2 = ''agent'' \<or> role agent2 = ''admin'') \<and> get_ticket desk 1 = Some ticket1
   \<and> notifications (store (update_ticket_status 100 desk agent2 1 (Some (status ticket1))))
       = notifications desk
   \<and> get_ticket (store (update_ticket_status 100 desk agent2 1 (Some (status ticket1)))) 1
       = Some (ticket1\<lparr>updated_at := 100\<rparr>)"
proof -
  have h1: "role agent2 = ''agent'' \<or> role agent2 = ''admin''" by (simp add: agent2_def)
  have h2: "get_ticket desk 1 = Some ticket1" by code_simp
  have v: "status ticket1 \<in> set valid_statuses" by (simp add: ticket1_def valid_statuses_def)
  from C3_same_status [OF h1 h2, of 100] h1 h2 v show ?thesis by simp
qed

text \<open>
  On the sample desk the first ticket is open and was last updated at time 10. The agent
  sets it to \<^verbatim>\<open>open\<close> at time 100: afterwards its \<^verbatim>\<open>updated_at\<close> is 100.
\<close>

theorem C3_timestamp_changes_counterexample:
  "status ticket1 = ''open'' \<and> updated_at ticket1 = 10
   \<and> get_ticket desk 1 = Some ticket1
   \<and> map_option updated_at
        (get_ticket (store (update_ticket_status 100 desk agent2 1 (Some ''open''))) 1) = Some 100"
  by code_simp

section \<open>Voting\<close>






text \<open>
  C10: a vote request on an existing ticket whose \<^verbatim>\<open>vote_type\<close> is neither \<^verbatim>\<open>upvote\<close>
  nor \<^verbatim>\<open>downvote\<close> (or is missing) raises nothing: it answers with the ticket's current
  two counters, flashes nothing, and leaves the whole database, the ticket included, as it
  was.
\<close>

theorem C10_unknown_vote_type:
  assumes g: "get_ticket st tid = Some t"
    and v: "vote_type \<noteq> Some ''upvote''" "vote_type \<noteq> Some ''downvote''"
  shows "vote_ticket now st tid vote_type
           = \<lparr>response = Json_votes (upvotes t) (downvotes t), flashes = [], store = st\<rparr>"
  using g v by (simp add: vote_ticket_def commit_overflows_def commit_ticket_def Let_def)

text \<open>The theorem at the sample desk: the vote type \<^verbatim>\<open>sideways\<close> on the first ticket.\<close>

theorem C10_unknown_vote_type_witness:
  "get_ticket desk 1 = Some ticket1
   \<and> Some ''sideways'' \<noteq> Some ''upvote'' \<and> Some ''sideways'' \<noteq> Some ''downvote''
   \<and> vote_ticket 100 desk 1 (Some ''sideways'')
       = \<lparr>response = Json_votes (upvotes ticket1) (downvotes ticket1), flashes = [],
          store = desk\<rparr>"
proof -
  have h1: "get_ticket desk 1 = Some ticket1" by code_simp
  have h2: "Some ''sideways'' \<noteq> Some ''upvote''" and h3: "Some ''sideways'' \<noteq> Some ''downvote''"
    by simp_all
  from C10_unknown_vote_type [OF h1 h2 h3, of 100] h1 show ?thesis by simp
qed

section \<open>Marking notifications read\<close>

lemma update_unread_count:
  "fst (update_unread uid ns)
     = length (filter (\<lambda>n. n_user_id n = uid \<and> \<not> is_read n) ns)"
  by (simp add: update_unread_def)

lemma update_unread_rows:
  "snd (update_unread uid ns)
     = map (\<lambda>n. if n_user_id n = uid then n\<lparr>is_read := True\<rparr> else n) ns"
  by (auto simp: update_unread_def)

lemma mark_all_reply:
  "mark_all_notifications_read st cu
     = \<lparr>response = Redirect ''notifications'' None,
        flashes = [(''All notifications marked as read!'', ''success'')],
        store = st\<lparr>notifications := snd (update_unread (u_id cu) (notifications st))\<rparr>\<rparr>"
  by (simp add: mark_all_notifications_read_def split: prod.splits)

lemma update_unread_all_read:
  assumes "n \<in> set (snd (update_unread uid ns))" and "n_user_id n = uid"
  shows "is_read n"
proof -
  from assms(1) obtain m where m: "m \<in> set ns"
    and n: "n = (if n_user_id m = uid \<and> is_read m = False then m\<lparr>is_read := True\<rparr> else m)"
    unfolding update_unread_def snd_conv set_map by (rule imageE)
  show ?thesis
  proof (cases "n_user_id m = uid \<and> is_read m = False")
    case True
    with n have "n = m\<lparr>is_read := True\<rparr>" by simp
    then show ?thesis by simp
  next
    case False
    with n have nm: "n = m" by simp
    with assms(2) False show ?thesis by simp
  qed
qed

lemma update_unread_none_left:
  "fst (update_unread uid (snd (update_unread uid ns))) = 0"
  by (auto simp: update_unread_def filter_empty_conv)

lemma update_unread_fixed:
  "snd (update_unread uid (snd (update_unread uid ns))) = snd (update_unread uid ns)"
  by (induction ns) (auto simp: update_unread_def)

text \<open>
  C9: \<^verbatim>\<open>mark_all_notifications_read\<close> rewrites the notification table row by row: a row
  of the calling user gets \<^verbatim>\<open>is_read = True\<close> and keeps all its other columns, a row of
  any other user stays as it is, and no other table changes. The number of rows its update
  matches is the number of the caller's unread rows. So after one call every notification
  of the caller is read, and a second call right after it matches 0 rows and gives the same
  reply and the same database as the first.
\<close>

theorem C9_mark_all_read_idempotent:
  "mark_all_notifications_read st cu
     = \<lparr>response = Redirect ''notifications'' None,
        flashes = [(''All notifications marked as read!'', ''success'')],
        store = st\<lparr>notifications :=
                  map (\<lambda>n. if n_user_id n = u_id cu then n\<lparr>is_read := True\<rparr> else n)
                    (notifications st)\<rparr>\<rparr>
   \<and> fst (update_unread (u_id cu) (notifications st))
       = length (filter (\<lambda>n. n_user_id n = u_id cu \<and> \<not> is_read n) (notifications st))
   \<and> (\<forall>n \<in> set (notifications (store (mark_all_notifications_read st cu))).
         n_user_id n = u_id cu \<longrightarrow> is_read n)
   \<and> fst (update_unread (u_id cu) (notifications (store (mark_all_notifications_read st cu)))) = 0
   \<and> mark_all_notifications_read (store (mark_all_notifications_read st cu)) cu
       = mark_all_notifications_read st cu"
proof -
  have first: "mark_all_notifications_read st cu
     = \<lparr>response = Redirect ''notifications'' None,
        flashes = [(''All notifications marked as read!'', ''success'')],
        store = st\<lparr>notifications :=
                  map (\<lambda>n. if n_user_id n = u_id cu then n\<lparr>is_read := True\<rparr> else n)
                    (notifications st)\<rparr>\<rparr>"
    by (simp add: mark_all_reply update_unread_rows)
  have n1: "notifications (store (mark_all_notifications_read st cu))
              = snd (update_unread (u_id cu) (notifications st))"
    by (simp add: mark_all_reply)
  have cnt: "fst (update_unread (u_id cu) (notifications st))
       = length (filter (\<lambda>n. n_user_id n = u_id cu \<and> \<not> is_read n) (notifications st))"
    by (rule update_unread_count)
  have allread: "\<forall>n \<in> set (notifications (store (mark_all_notifications_read st cu))).
         n_user_id n = u_id cu \<longrightarrow> is_read n"
    unfolding n1 by (blast intro: update_unread_all_read)
  have z: "fst (update_unread (u_id cu) (notifications (store (mark_all_notifications_read st cu)))) = 0"
    unfolding n1 by (rule update_unread_none_left)
  have second: "mark_all_notifications_read (store (mark_all_notifications_read st cu)) cu
       = mark_all_notifications_read st cu"
    by (simp add: mark_all_reply update_unread_fixed)
  from first cnt allread z second show ?thesis
    by (intro conjI)
qed

text \<open>
  The theorem at the sample desk with its three unread notifications, for the users 1, 4
  and 2. The admin with id 1 marks all read: the first call matches one row, the rows are
  afterwards read for user 1 and still unread for users 4 and 2, and the second call
  matches none.
\<close>

theorem C9_mark_all_read_idempotent_witness:
  "map (\<lambda>n. (n_user_id n, is_read n)) (notifications desk_notified)
     = [(1, False), (4, False), (2, False)]
   \<and> fst (update_unread (u_id admin1) (notifications desk_notified)) = 1
   \<and> map (\<lambda>n. (n_user_id n, is_read n))
       (notifications (store (mark_all_notifications_read desk_notified admin1)))
     = [(1, True), (4, False), (2, False)]
   \<and> (\<exists>n \<in> set (notifications (store (mark_all_notifications_read desk_notified admin1))).
         n_user_id n = u_id admin1 \<and> is_read n)
   \<and> fst (update_unread (u_id admin1)
            (notifications (store (mark_all_notifications_read desk_notified admin1)))) = 0
   \<and> mark_all_notifications_read
        (store (mark_all_notifications_read desk_notified admin1)) admin1
       = mark_all_notifications_read desk_notified admin1"
proof -
  have before: "map (\<lambda>n. (n_user_id n, is_read n)) (notifications desk_notified)
     = [(1, False), (4, False), (2, False)]"
    by code_simp
  have one: "length (filter (\<lambda>n. n_user_id n = u_id admin1 \<and> \<not> is_read n)
                (notifications desk_notified)) = 1"
    by code_simp
  have after: "map (\<lambda>n. (n_user_id n, is_read n))
       (notifications (store (mark_all_notifications_read desk_notified admin1)))
     = [(1, True), (4, False), (2, False)]"
    by code_simp
  have mine: "\<exists>n \<in> set (notifications (store (mark_all_notifications_read desk_notified admin1))).
                n_user_id n = u_id admin1"
    by code_simp
  note inst = C9_mark_all_read_idempotent [of desk_notified admin1]
  from inst have cnt: "fst (update_unread (u_id admin1) (notifications desk_notified))
       = length (filter (\<lambda>n. n_user_id n = u_id admin1 \<and> \<not> is_read n)
                   (notifications desk_notified))"
    by (rule conjunct1 [OF conjunct2])
  from inst have rest: "(\<forall>n \<in> set (notifications (store (mark_all_notifications_read desk_notified admin1))).
         n_user_id n = u_id admin1 \<longrightarrow> is_read n)
   \<and> fst (update_unread (u_id admin1)
            (notifications (store (mark_all_notifications_read desk_notified admin1)))) = 0
   \<and> mark_all_notifications_read
        (store (mark_all_notifications_read desk_notified admin1)) admin1
       = mark_all_notifications_read desk_notified admin1"
    by (rule conjunct2 [OF conjunct2])
  from cnt one have c1: "fst (update_unread (u_id admin1) (notifications desk_notified)) = 1"
    by (rule trans)
  from rest mine have read: "\<exists>n \<in> set (notifications (store (mark_all_notifications_read desk_notified admin1))).
         n_user_id n = u_id admin1 \<and> is_read n"
    by blast
  from before c1 after read rest show ?thesis by blast
qed

section \<open>The ticket listing\<close>



lemma order_by_desc_stable:
  "filter (\<lambda>r. k r = v) (order_by_desc k rows) = filter (\<lambda>r. k r = v) rows"
proof -
  have "filter (\<lambda>r. k r = v) (sort_key k (rev rows)) = filter (\<lambda>r. k r = v) (rev rows)"
    by (rule sort_key_stable)
  then show ?thesis
    by (simp add: order_by_desc_def rev_filter [symmetric])
qed





end
